theory Spec2Isabelle
  imports Main
begin

section \<open>The chat backend of \<^verbatim>\<open>src/backend/server.js\<close>\<close>

text \<open>
  The server keeps two MongoDB collections (users, messages) behind mongoose models, hashes
  passwords with bcrypt and relays chat messages over Socket.IO. The handlers of
  \<^verbatim>\<open>server.js\<close> are embedded as functions on an explicit \<open>world\<close>: the two
  collections in insertion order, the ObjectId generator, the sockets that Socket.IO holds
  open, what each socket was sent and what was written to the console.

  Scope of the embedding. A request carries each field of its body as a string (an absent or
  non-string field is outside it), strings are lists of code units below 256 (Basic Latin
  and Latin-1 Supplement), and the store answers every call (no connection failure). What mongoose, bcrypt and Socket.IO do for the
  handlers is written out below next to the schema or call that asks for it.
\<close>

subsection \<open>Values\<close>

datatype objectId = ObjectId nat

datatype json =
    JNull
  | JStr string
  | JNum nat
  | JId objectId
  | JDate nat
  | JObj "(string \<times> json) list"
  | JArr "json list"

datatype error = ValidationError "string list" | CastError string | DuplicateKeyError string

datatype response = Response nat json

datatype log_entry = ConsoleLog "string list" | ConsoleError string error

type_synonym socket_id = string

subsection \<open>Schemas and the store\<close>

text \<open>
  \<open>userSchema\<close> and \<open>messageSchema\<close>. Every stored document also has the \<open>_id\<close> that
  mongoose generates when the document is constructed and the version key \<open>__v\<close>.
\<close>

record user =
  user_id :: objectId
  firstName :: string
  lastName :: string
  email :: string
  password :: string
  role :: string
  user_v :: nat

record message =
  message_id :: objectId
  sender :: objectId
  receiver :: objectId
  content :: string
  timestamp :: nat
  message_v :: nat

text \<open>
  A message document between \<open>new Message(...)\<close> and \<open>save()\<close>: the constructor casts
  \<open>sender\<close> and \<open>receiver\<close> to ObjectId and keeps a failed cast for validation.
\<close>

record message_doc =
  doc_id :: objectId
  doc_sender :: "objectId option"
  doc_receiver :: "objectId option"
  doc_content :: string
  doc_timestamp :: nat

record world =
  users :: "user list"
  messages :: "message list"
  next_oid :: nat
  sockets :: "socket_id list"
  emitted :: "(socket_id \<times> string \<times> json) list"
  console :: "log_entry list"

subsection \<open>bcrypt\<close>

text \<open>
  The Blowfish digest and the comparison are the library's and are taken as parameters.
  \<open>bcrypt.hash(data, rounds)\<close> draws a salt and returns the modular-crypt string
  \<open>$2b$<rounds>$<salt><digest>\<close>; the salt it draws is an argument here.
\<close>

record bcrypt =
  digest :: "string \<Rightarrow> nat \<Rightarrow> string \<Rightarrow> string"
  compare :: "string \<Rightarrow> string \<Rightarrow> bool"

definition two_digits :: "nat \<Rightarrow> string" where
  "two_digits n = [char_of (48 + n div 10 mod 10), char_of (48 + n mod 10)]"

definition bcrypt_hash :: "bcrypt \<Rightarrow> string \<Rightarrow> nat \<Rightarrow> string \<Rightarrow> string" where
  "bcrypt_hash bc data rounds salt =
     ''$2b$'' @ two_digits rounds @ ''$'' @ salt @ digest bc data rounds salt"

subsection \<open>Strings and ObjectIds\<close>

text \<open>
  A \<open>char\<close> is a code unit from U+0000 to U+00FF. The uppercase letters among these are
  \<open>A\<close>..\<open>Z\<close> (U+0041..U+005A), U+00C0..U+00D6 and U+00D8..U+00DE (U+00D7 is the
  multiplication sign). \<open>String.prototype.toLowerCase\<close> maps each of them to the letter 32
  places further on and leaves every other code unit of the range as it is.
\<close>

definition isUpperCase :: "char \<Rightarrow> bool" where
  "isUpperCase c =
     (let n = (of_char c :: nat) in
      65 \<le> n \<and> n \<le> 90 \<or> 192 \<le> n \<and> n \<le> 214 \<or> 216 \<le> n \<and> n \<le> 222)"

definition lowerChar :: "char \<Rightarrow> char" where
  "lowerChar c = (if isUpperCase c then char_of ((of_char c :: nat) + 32) else c)"

definition toLowerCase :: "string \<Rightarrow> string" where
  "toLowerCase s = map lowerChar s"

text \<open>
  The cast of a string to ObjectId that mongoose applies to \<open>ref\<close> paths and to query
  values on them: the 24 hexadecimal digits of the 12 bytes, in either case. (Releases of
  the bson library before 6 also take a string of 12 characters as the bytes themselves;
  nothing below is evaluated on such a string.)
\<close>

definition hexValue :: "char \<Rightarrow> nat option" where
  "hexValue c =
     (let n = (of_char c :: nat) in
      if 48 \<le> n \<and> n \<le> 57 then Some (n - 48)
      else if 97 \<le> n \<and> n \<le> 102 then Some (n - 87)
      else if 65 \<le> n \<and> n \<le> 70 then Some (n - 55)
      else None)"

fun hexNumber :: "nat \<Rightarrow> string \<Rightarrow> nat option" where
  "hexNumber acc [] = Some acc"
| "hexNumber acc (c # cs) =
     (case hexValue c of None \<Rightarrow> None | Some d \<Rightarrow> hexNumber (16 * acc + d) cs)"

definition castObjectId :: "string \<Rightarrow> objectId option" where
  "castObjectId s =
     (if length s = 24 then map_option ObjectId (hexNumber 0 s) else None)"

subsection \<open>Model operations of mongoose\<close>

definition fresh_oid :: "world \<Rightarrow> objectId \<times> world" where
  "fresh_oid w = (ObjectId (next_oid w), w\<lparr>next_oid := Suc (next_oid w)\<rparr>)"

text \<open>\<open>User.findOne({ email })\<close>: the first stored user whose email is exactly the given one.\<close>

definition User_findOne_email :: "string \<Rightarrow> world \<Rightarrow> user option" where
  "User_findOne_email e w = find (\<lambda>u. email u = e) (users w)"

text \<open>\<open>new User({...})\<close>: the document with a generated \<open>_id\<close>.\<close>

definition new_User ::
  "string \<Rightarrow> string \<Rightarrow> string \<Rightarrow> string \<Rightarrow> string \<Rightarrow> world \<Rightarrow> user \<times> world" where
  "new_User fn ln em pw rl w =
     (let (oid, w1) = fresh_oid w in
      (\<lparr>user_id = oid, firstName = fn, lastName = ln, email = em, password = pw, role = rl,
        user_v = 0\<rparr>, w1))"

text \<open>\<open>required: true\<close> on a String path rejects the empty string.\<close>

definition required_failures :: "(string \<times> string) list \<Rightarrow> string list" where
  "required_failures paths = map fst (filter (\<lambda>p. snd p = []) paths)"

definition User_validate :: "user \<Rightarrow> string list" where
  "User_validate u =
     required_failures
       [(''firstName'', firstName u), (''lastName'', lastName u), (''email'', email u),
        (''password'', password u), (''role'', role u)]"

text \<open>
  \<open>newUser.save()\<close>: validation against the schema, then the insert, which the unique index
  on \<open>email\<close> refuses for an email that is already stored.
\<close>

definition User_save :: "user \<Rightarrow> world \<Rightarrow> error + world" where
  "User_save u w =
     (if User_validate u \<noteq> [] then Inl (ValidationError (User_validate u))
      else if list_ex (\<lambda>v. email v = email u) (users w) then Inl (DuplicateKeyError ''email'')
      else Inr (w\<lparr>users := users w @ [u]\<rparr>))"

text \<open>\<open>new Message({ sender, receiver, content })\<close>; \<open>timestamp\<close> defaults to \<open>Date.now\<close>.\<close>

definition new_Message :: "nat \<Rightarrow> string \<Rightarrow> string \<Rightarrow> string \<Rightarrow> world \<Rightarrow> message_doc \<times> world" where
  "new_Message now senderId receiverId content' w =
     (let (oid, w1) = fresh_oid w in
      (\<lparr>doc_id = oid, doc_sender = castObjectId senderId,
        doc_receiver = castObjectId receiverId, doc_content = content',
        doc_timestamp = now\<rparr>, w1))"

definition Message_validate :: "message_doc \<Rightarrow> string list" where
  "Message_validate d =
     (if doc_sender d = None then [''sender''] else []) @
     (if doc_receiver d = None then [''receiver''] else []) @
     required_failures [(''content'', doc_content d)]"

definition Message_save :: "message_doc \<Rightarrow> world \<Rightarrow> error + (message \<times> world)" where
  "Message_save d w =
     (if Message_validate d \<noteq> [] then Inl (ValidationError (Message_validate d))
      else
        (case (doc_sender d, doc_receiver d) of
           (Some s, Some r) \<Rightarrow>
             (let m = \<lparr>message_id = doc_id d, sender = s, receiver = r,
                       content = doc_content d, timestamp = doc_timestamp d, message_v = 0\<rparr>
              in Inr (m, w\<lparr>messages := messages w @ [m]\<rparr>))
         | _ \<Rightarrow> Inl (ValidationError (Message_validate d))))"

subsection \<open>JSON of documents, projection and populate\<close>

definition user_toJSON :: "user \<Rightarrow> json" where
  "user_toJSON u =
     JObj [(''_id'', JId (user_id u)), (''firstName'', JStr (firstName u)),
           (''lastName'', JStr (lastName u)), (''email'', JStr (email u)),
           (''password'', JStr (password u)), (''role'', JStr (role u)),
           (''__v'', JNum (user_v u))]"

text \<open>
  An inclusive field selection (\<open>'firstName lastName'\<close>) keeps the listed paths and, as
  MongoDB does unless told otherwise, \<open>_id\<close>.
\<close>

fun select_fields :: "string list \<Rightarrow> json \<Rightarrow> json" where
  "select_fields paths (JObj kvs) =
     JObj (filter (\<lambda>kv. fst kv = ''_id'' \<or> fst kv \<in> set paths) kvs)"
| "select_fields paths j = j"

definition keys :: "json \<Rightarrow> string list" where
  "keys j = (case j of JObj kvs \<Rightarrow> map fst kvs | _ \<Rightarrow> [])"

definition field :: "string \<Rightarrow> json \<Rightarrow> json option" where
  "field k j = (case j of JObj kvs \<Rightarrow> map_of kvs k | _ \<Rightarrow> None)"

text \<open>
  \<open>populate(path, select)\<close> replaces a reference by the selected fields of the user with
  that \<open>_id\<close>, and by \<open>null\<close> when there is none.
\<close>

definition populate_ref :: "string list \<Rightarrow> user list \<Rightarrow> objectId \<Rightarrow> json" where
  "populate_ref paths us oid =
     (case find (\<lambda>u. user_id u = oid) us of
        None \<Rightarrow> JNull
      | Some u \<Rightarrow> select_fields paths (user_toJSON u))"

definition message_populated :: "user list \<Rightarrow> message \<Rightarrow> json" where
  "message_populated us m =
     JObj [(''_id'', JId (message_id m)),
           (''sender'', populate_ref [''firstName'', ''lastName''] us (sender m)),
           (''receiver'', populate_ref [''firstName'', ''lastName''] us (receiver m)),
           (''content'', JStr (content m)), (''timestamp'', JDate (timestamp m)),
           (''__v'', JNum (message_v m))]"

subsection \<open>Socket.IO\<close>

text \<open>\<open>io.emit(event, data)\<close> sends the event to every socket that is connected.\<close>

definition io_emit :: "string \<Rightarrow> json \<Rightarrow> world \<Rightarrow> world" where
  "io_emit event data w =
     w\<lparr>emitted := emitted w @ map (\<lambda>sid. (sid, event, data)) (sockets w)\<rparr>"

subsection \<open>Startup: \<open>initializeDefaultUsers\<close>\<close>

text \<open>The entries of \<open>defaultUsers\<close>: firstName, lastName, email, password, role.\<close>

type_synonym userData = "string \<times> string \<times> string \<times> string \<times> string"

definition defaultUsers :: "userData list" where
  "defaultUsers =
     [(''Admin'', ''User'', ''admin@example.com'', ''admin123'', ''Admin''),
      (''Teacher'', ''User'', ''teacher@example.com'', ''teacher123'', ''Teacher''),
      (''Parent'', ''User'', ''parent@example.com'', ''parent123'', ''Parent'')]"

text \<open>The body of the \<open>for\<close> loop, with the salt that \<open>bcrypt.hash\<close> draws if it is called.\<close>

definition initializeDefaultUser :: "bcrypt \<Rightarrow> string \<Rightarrow> userData \<Rightarrow> world \<Rightarrow> world" where
  "initializeDefaultUser bc salt userData w =
     (case userData of (fn, ln, em, pw, rl) \<Rightarrow>
        (case User_findOne_email em w of
           Some existingUser \<Rightarrow> w
         | None \<Rightarrow>
             (let hashed = bcrypt_hash bc pw 10 salt;
                  (newUser, w1) = new_User fn ln em hashed rl w
              in case User_save newUser w1 of
                   Inr w2 \<Rightarrow> w2\<lparr>console := console w2 @ [ConsoleLog [''Created default user: '' @ em]]\<rparr>
                 | Inl err \<Rightarrow>
                     w1\<lparr>console := console w1 @
                          [ConsoleError ''Error initializing default users:'' err]\<rparr>)))"

fun forEach_defaultUser :: "bcrypt \<Rightarrow> (nat \<Rightarrow> string) \<Rightarrow> nat \<Rightarrow> userData list \<Rightarrow> world \<Rightarrow> world" where
  "forEach_defaultUser bc salts i [] w = w"
| "forEach_defaultUser bc salts i (userData # rest) w =
     forEach_defaultUser bc salts (Suc i) rest (initializeDefaultUser bc (salts i) userData w)"

definition initializeDefaultUsers :: "bcrypt \<Rightarrow> (nat \<Rightarrow> string) \<Rightarrow> world \<Rightarrow> world" where
  "initializeDefaultUsers bc salts w = forEach_defaultUser bc salts 0 defaultUsers w"

subsection \<open>HTTP routes\<close>

text \<open>
  Every route runs its body in \<open>try\<close> and answers 500 from \<open>catch\<close>. On a store that
  answers, \<open>findOne\<close>, a \<open>find\<close> with nothing to cast and \<open>bcrypt.compare\<close> on strings
  do not throw, so only the routes that save a document or cast a value have the 500 branch
  here.
\<close>

definition message_body :: "string \<Rightarrow> json" where
  "message_body text' = JObj [(''message'', JStr text')]"

text \<open>
  The signup route awaits \<open>findOne\<close>, then \<open>bcrypt.hash\<close>, then \<open>save()\<close>, and the
  server handles other requests while a route awaits. So \<open>findOne\<close> reads the store as it
  is when the request arrives, \<open>w\<close>, and the route goes on (answers, or constructs and
  saves the document) in the world \<open>w'\<close> that the requests handled in between have left.
  The unique index is what \<open>save()\<close> meets in \<open>w'\<close>.
\<close>

definition post_signup_interleaved ::
  "bcrypt \<Rightarrow> string \<Rightarrow> string \<Rightarrow> string \<Rightarrow> string \<Rightarrow> string \<Rightarrow> string \<Rightarrow> world \<Rightarrow> world \<Rightarrow>
   response \<times> world" where
  "post_signup_interleaved bc salt firstName' lastName' email' password' role' w w' =
     (case User_findOne_email email' w of
        Some existingUser \<Rightarrow> (Response 400 (message_body ''Email already exists''), w')
      | None \<Rightarrow>
          (let hashedPassword = bcrypt_hash bc password' 10 salt;
               (newUser, w1) = new_User firstName' lastName' email' hashedPassword role' w'
           in case User_save newUser w1 of
                Inr w2 \<Rightarrow> (Response 201 (message_body ''User created successfully''), w2)
              | Inl err \<Rightarrow>
                  (Response 500 (message_body ''Server error during signup''),
                   w1\<lparr>console := console w1 @ [ConsoleError ''Error during signup:'' err]\<rparr>)))"

text \<open>The route when no other request is handled during its awaits.\<close>

definition post_signup ::
  "bcrypt \<Rightarrow> string \<Rightarrow> string \<Rightarrow> string \<Rightarrow> string \<Rightarrow> string \<Rightarrow> string \<Rightarrow> world \<Rightarrow> response \<times> world" where
  "post_signup bc salt firstName' lastName' email' password' role' w =
     post_signup_interleaved bc salt firstName' lastName' email' password' role' w w"

definition post_login :: "bcrypt \<Rightarrow> string \<Rightarrow> string \<Rightarrow> world \<Rightarrow> response \<times> world" where
  "post_login bc email' password' w =
     (case User_findOne_email (toLowerCase email') w of
        None \<Rightarrow> (Response 400 (message_body ''Invalid email or password''), w)
      | Some user \<Rightarrow>
          if \<not> compare bc password' (password user)
          then (Response 400 (message_body ''Invalid email or password''), w)
          else (Response 200
                  (JObj [(''message'', JStr ''Login successful''), (''user'', user_toJSON user)]),
                w))"

definition get_chat_users :: "world \<Rightarrow> response \<times> world" where
  "get_chat_users w =
     (Response 200
        (JArr (map (\<lambda>u. select_fields [''firstName'', ''lastName'', ''email'', ''role'']
                            (user_toJSON u)) (users w))),
      w)"

text \<open>\<open>User.find({ role: ... })\<close>: every stored user with exactly that role, all fields.\<close>

definition User_find_role :: "string \<Rightarrow> world \<Rightarrow> user list" where
  "User_find_role r w = filter (\<lambda>u. role u = r) (users w)"

definition get_chat_teachers :: "world \<Rightarrow> response \<times> world" where
  "get_chat_teachers w = (Response 200 (JArr (map user_toJSON (User_find_role ''Teacher'' w))), w)"

definition get_chat_parents :: "world \<Rightarrow> response \<times> world" where
  "get_chat_parents w = (Response 200 (JArr (map user_toJSON (User_find_role ''Parent'' w))), w)"

text \<open>
  The \<open>$or\<close> query of the messages route. Its four values are cast to ObjectId, and a value
  that does not cast makes \<open>find\<close> throw. Mongoose casts the clauses and the paths of a
  clause last to first: \<open>receiver: currentUserId\<close> of the second clause comes first, then
  its \<open>sender: otherUserId\<close>, and the error names the path being cast.
\<close>

definition between :: "objectId \<Rightarrow> objectId \<Rightarrow> message \<Rightarrow> bool" where
  "between c o' m = (sender m = c \<and> receiver m = o' \<or> sender m = o' \<and> receiver m = c)"

definition Message_find_between :: "string \<Rightarrow> string \<Rightarrow> world \<Rightarrow> error + message list" where
  "Message_find_between currentUserId otherUserId w =
     (case castObjectId currentUserId of
        None \<Rightarrow> Inl (CastError ''receiver'')
      | Some c \<Rightarrow>
          (case castObjectId otherUserId of
             None \<Rightarrow> Inl (CastError ''sender'')
           | Some o' \<Rightarrow> Inr (filter (between c o') (messages w))))"

definition get_chat_messages :: "string \<Rightarrow> string \<Rightarrow> world \<Rightarrow> response \<times> world" where
  "get_chat_messages otherUserId currentUserId w =
     (case Message_find_between currentUserId otherUserId w of
        Inr found \<Rightarrow> (Response 200 (JArr (map (message_populated (users w)) found)), w)
      | Inl err \<Rightarrow>
          (Response 500 (message_body ''Error fetching messages''),
           w\<lparr>console := console w @ [ConsoleError ''Error fetching messages:'' err]\<rparr>))"

subsection \<open>Socket.IO handlers\<close>

definition on_connection :: "socket_id \<Rightarrow> world \<Rightarrow> world" where
  "on_connection sid w =
     w\<lparr>sockets := sockets w @ [sid],
       console := console w @ [ConsoleLog [''A user connected:'', sid]]\<rparr>"

definition receiveMessage :: "string \<Rightarrow> string \<Rightarrow> string \<Rightarrow> nat \<Rightarrow> json" where
  "receiveMessage senderId receiverId content' ts =
     JObj [(''senderId'', JStr senderId), (''receiverId'', JStr receiverId),
           (''content'', JStr content'), (''timestamp'', JDate ts)]"

definition on_sendMessage :: "nat \<Rightarrow> string \<Rightarrow> string \<Rightarrow> string \<Rightarrow> world \<Rightarrow> world" where
  "on_sendMessage now senderId receiverId content' w =
     (let (doc, w1) = new_Message now senderId receiverId content' w in
      case Message_save doc w1 of
        Inr (message, w2) \<Rightarrow>
          io_emit ''receiveMessage''
            (receiveMessage senderId receiverId content' (timestamp message)) w2
      | Inl err \<Rightarrow>
          w1\<lparr>console := console w1 @ [ConsoleError ''Error handling sendMessage event:'' err]\<rparr>)"

definition on_disconnect :: "socket_id \<Rightarrow> world \<Rightarrow> world" where
  "on_disconnect sid w =
     w\<lparr>sockets := removeAll sid (sockets w),
       console := console w @ [ConsoleLog [''User disconnected:'', sid]]\<rparr>"

subsection \<open>Everything the server reacts to\<close>

datatype request =
    MongoOpen "nat \<Rightarrow> string"
  | PostSignup string string string string string string
  | PostLogin string string
  | GetChatUsers
  | GetChatTeachers
  | GetChatParents
  | GetChatMessages string string
  | Connection socket_id
  | SendMessage socket_id nat string string string
  | Disconnect socket_id

fun handle :: "bcrypt \<Rightarrow> request \<Rightarrow> world \<Rightarrow> response option \<times> world" where
  "handle bc (MongoOpen salts) w = (None, initializeDefaultUsers bc salts w)"
| "handle bc (PostSignup salt fn ln em pw rl) w =
     (case post_signup bc salt fn ln em pw rl w of (res, w') \<Rightarrow> (Some res, w'))"
| "handle bc (PostLogin em pw) w = (case post_login bc em pw w of (res, w') \<Rightarrow> (Some res, w'))"
| "handle bc GetChatUsers w = (case get_chat_users w of (res, w') \<Rightarrow> (Some res, w'))"
| "handle bc GetChatTeachers w = (case get_chat_teachers w of (res, w') \<Rightarrow> (Some res, w'))"
| "handle bc GetChatParents w = (case get_chat_parents w of (res, w') \<Rightarrow> (Some res, w'))"
| "handle bc (GetChatMessages other current) w =
     (case get_chat_messages other current w of (res, w') \<Rightarrow> (Some res, w'))"
| "handle bc (Connection sid) w = (None, on_connection sid w)"
| "handle bc (SendMessage sid now s r c) w =
     (None, if sid \<in> set (sockets w) then on_sendMessage now s r c w else w)"
| "handle bc (Disconnect sid) w = (None, on_disconnect sid w)"

fun run :: "bcrypt \<Rightarrow> request list \<Rightarrow> world \<Rightarrow> world" where
  "run bc [] w = w"
| "run bc (r # rs) w = run bc rs (snd (handle bc r w))"

definition empty_world :: world where
  "empty_world = \<lparr>users = [], messages = [], next_oid = 0, sockets = [], emitted = [], console = []\<rparr>"

text \<open>
  A stand-in for the library, to run the handlers on concrete inputs: the digest is the data
  itself and the comparison reads it back behind the 29 characters of prefix and salt. The
  theorems below hold for every \<open>bcrypt\<close>.
\<close>

definition stub_bcrypt :: bcrypt where
  "stub_bcrypt =
     \<lparr>digest = (\<lambda>data rounds salt. data), compare = (\<lambda>data h. drop 29 h = data)\<rparr>"

subsection \<open>Example data\<close>

text \<open>Concrete worlds on which the theorems below are instantiated and evaluated.\<close>

definition salt0 :: string where
  "salt0 = ''abcdefghijklmnopqrstuv''"

definition jane :: user where
  "jane = \<lparr>user_id = ObjectId 0, firstName = ''Jane'', lastName = ''Doe'', email = ''jane@x.com'',
           password = ''$2b$10$abcdefghijklmnopqrstuvpw1'', role = ''Teacher'', user_v = 0\<rparr>"

definition jane_world :: world where
  "jane_world = empty_world\<lparr>users := [jane], next_oid := 1\<rparr>"


definition id0 :: string where "id0 = ''000000000000000000000000''"

definition id1 :: string where "id1 = ''000000000000000000000001''"

definition idff :: string where "idff = ''0000000000000000000000FF''"

definition online_world :: world where
  "online_world = on_connection ''socket-b'' (on_connection ''socket-a'' jane_world)"

definition chat_world :: world where
  "chat_world =
     on_sendMessage 1700000000003 id0 id1 ''other''
       (on_sendMessage 1700000000002 idff id0 ''yo''
          (on_sendMessage 1700000000001 id0 idff ''hi'' online_world))"

section \<open>Properties\<close>

subsection \<open>Library facts\<close>


lemma toLowerCase_examples:
  "toLowerCase ''Jane@X.com'' = ''jane@x.com''"
  "toLowerCase [char_of (201 :: nat), CHR ''@'', CHR ''X''] = [char_of (233 :: nat), CHR ''@'', CHR ''x'']"
  "toLowerCase [char_of (215 :: nat), char_of (223 :: nat)] = [char_of (215 :: nat), char_of (223 :: nat)]"
  "isUpperCase (char_of (201 :: nat))" "\<not> isUpperCase (char_of (233 :: nat))"
  by code_simp+



lemma bcrypt_hash_nonempty: "bcrypt_hash bc data rounds salt \<noteq> []"
  by (simp add: bcrypt_hash_def)


lemma User_findOne_email_None:
  "(User_findOne_email e w = None) = (e \<notin> email ` set (users w))"
  by (auto simp: User_findOne_email_def find_None_iff)

lemma User_validate_ok:
  "(User_validate u = []) =
   (firstName u \<noteq> [] \<and> lastName u \<noteq> [] \<and> email u \<noteq> [] \<and> password u \<noteq> [] \<and> role u \<noteq> [])"
  by (auto simp: User_validate_def required_failures_def)

subsection \<open>Seeding\<close>

lemma initializeDefaultUser_present:
  "em \<in> email ` set (users w) \<Longrightarrow> initializeDefaultUser bc salt (fn, ln, em, pw, rl) w = w"
  using User_findOne_email_None [of em w]
  by (auto simp: initializeDefaultUser_def split: option.splits)

lemma initializeDefaultUser_absent:
  assumes "em \<notin> email ` set (users w)" "fn \<noteq> []" "ln \<noteq> []" "em \<noteq> []" "rl \<noteq> []"
  shows "initializeDefaultUser bc salt (fn, ln, em, pw, rl) w =
     w\<lparr>users := users w @ [\<lparr>user_id = ObjectId (next_oid w), firstName = fn, lastName = ln,
          email = em, password = bcrypt_hash bc pw 10 salt, role = rl, user_v = 0\<rparr>],
       next_oid := Suc (next_oid w),
       console := console w @ [ConsoleLog [''Created default user: '' @ em]]\<rparr>"
  using assms User_findOne_email_None [of em w]
  by (auto simp: initializeDefaultUser_def new_User_def fresh_oid_def User_save_def
      User_validate_ok bcrypt_hash_nonempty list_ex_iff split: option.splits)

lemma initializeDefaultUsers_users:
  "\<exists>new. users (initializeDefaultUsers bc salts w) = users w @ new \<and>
     map (\<lambda>u. (email u, role u)) new =
       filter (\<lambda>p. fst p \<notin> email ` set (users w))
         [(''admin@example.com'', ''Admin''), (''teacher@example.com'', ''Teacher''),
          (''parent@example.com'', ''Parent'')]"
  apply (cases "''admin@example.com'' \<in> email ` set (users w)";
      cases "''teacher@example.com'' \<in> email ` set (users w)";
      cases "''parent@example.com'' \<in> email ` set (users w)")
  apply (simp_all add: initializeDefaultUsers_def defaultUsers_def
      initializeDefaultUser_present initializeDefaultUser_absent image_Un)
  done

lemma initializeDefaultUsers_messages:
  "messages (initializeDefaultUsers bc salts w) = messages w"
  apply (cases "''admin@example.com'' \<in> email ` set (users w)";
      cases "''teacher@example.com'' \<in> email ` set (users w)";
      cases "''parent@example.com'' \<in> email ` set (users w)")
  apply (simp_all add: initializeDefaultUsers_def defaultUsers_def
      initializeDefaultUser_present initializeDefaultUser_absent image_Un)
  done

lemma initializeDefaultUsers_seeded:
  "''admin@example.com'' \<in> email ` set (users (initializeDefaultUsers bc salts w)) \<and>
   ''teacher@example.com'' \<in> email ` set (users (initializeDefaultUsers bc salts w)) \<and>
   ''parent@example.com'' \<in> email ` set (users (initializeDefaultUsers bc salts w))"
  apply (cases "''admin@example.com'' \<in> email ` set (users w)";
      cases "''teacher@example.com'' \<in> email ` set (users w)";
      cases "''parent@example.com'' \<in> email ` set (users w)")
  apply (simp_all add: initializeDefaultUsers_def defaultUsers_def
      initializeDefaultUser_present initializeDefaultUser_absent image_Un)
  done

lemma initializeDefaultUsers_fixpoint:
  assumes "''admin@example.com'' \<in> email ` set (users w)"
    "''teacher@example.com'' \<in> email ` set (users w)"
    "''parent@example.com'' \<in> email ` set (users w)"
  shows "initializeDefaultUsers bc salts w = w"
  using assms
  by (simp add: initializeDefaultUsers_def defaultUsers_def initializeDefaultUser_present)

lemma initializeDefaultUsers_twice:
  "initializeDefaultUsers bc salts' (initializeDefaultUsers bc salts w) =
   initializeDefaultUsers bc salts w"
  by (rule initializeDefaultUsers_fixpoint) (simp_all add: initializeDefaultUsers_seeded)

lemma initializeDefaultUsers_empty:
  "map (\<lambda>u. (email u, role u)) (users (initializeDefaultUsers bc salts empty_world)) =
     [(''admin@example.com'', ''Admin''), (''teacher@example.com'', ''Teacher''),
      (''parent@example.com'', ''Parent'')]"
  using initializeDefaultUsers_users [of bc salts empty_world]
  by (auto simp: empty_world_def)

text \<open>
  C5. Seeding is idempotent. From any store, \<open>initializeDefaultUsers\<close> keeps every stored
  user in place and appends, in the order admin, teacher, parent, exactly the seed accounts
  whose email is not stored yet; running it again (whatever salts bcrypt would draw) changes
  nothing at all; and from the empty store two runs leave exactly the three seed accounts.
\<close>

theorem initializeDefaultUsers_idempotent:
  "(\<exists>new. users (initializeDefaultUsers bc salts w) = users w @ new \<and>
       map (\<lambda>u. (email u, role u)) new =
         filter (\<lambda>p. fst p \<notin> email ` set (users w))
           [(''admin@example.com'', ''Admin''), (''teacher@example.com'', ''Teacher''),
            (''parent@example.com'', ''Parent'')]) \<and>
   initializeDefaultUsers bc salts' (initializeDefaultUsers bc salts w) =
     initializeDefaultUsers bc salts w \<and>
   map (\<lambda>u. (email u, role u))
      (users (initializeDefaultUsers bc salts' (initializeDefaultUsers bc salts empty_world))) =
     [(''admin@example.com'', ''Admin''), (''teacher@example.com'', ''Teacher''),
      (''parent@example.com'', ''Parent'')] \<and>
   length (users (initializeDefaultUsers bc salts' (initializeDefaultUsers bc salts empty_world))) = 3"
proof -
  have len: "length (users (initializeDefaultUsers bc salts empty_world)) = 3"
    using arg_cong [OF initializeDefaultUsers_empty [of bc salts], of length] by simp
  show ?thesis
    unfolding initializeDefaultUsers_twice
    using initializeDefaultUsers_users [of bc salts w] initializeDefaultUsers_empty [of bc salts] len
    by blast
qed

subsection \<open>Signup\<close>

lemma two_digits_10: "two_digits 10 = ''10''"
  by code_simp

lemma post_signup_duplicate:
  "email' \<in> email ` set (users w) \<Longrightarrow>
   post_signup bc salt fn ln email' pw rl w = (Response 400 (message_body ''Email already exists''), w)"
  using User_findOne_email_None [of email' w]
  by (auto simp: post_signup_def post_signup_interleaved_def split: option.splits)

lemma post_signup_created:
  assumes "email' \<notin> email ` set (users w)" "fn \<noteq> []" "ln \<noteq> []" "email' \<noteq> []" "rl \<noteq> []"
  shows "post_signup bc salt fn ln email' pw rl w =
    (Response 201 (message_body ''User created successfully''),
     w\<lparr>users := users w @ [\<lparr>user_id = ObjectId (next_oid w), firstName = fn, lastName = ln,
          email = email', password = bcrypt_hash bc pw 10 salt, role = rl, user_v = 0\<rparr>],
       next_oid := Suc (next_oid w)\<rparr>)"
  using assms User_findOne_email_None [of email' w]
  by (auto simp: post_signup_def post_signup_interleaved_def new_User_def fresh_oid_def User_save_def User_validate_ok
      bcrypt_hash_nonempty list_ex_iff split: option.splits)

lemma post_signup_invalid:
  assumes "email' \<notin> email ` set (users w)" "fn = [] \<or> ln = [] \<or> email' = [] \<or> rl = []"
  shows "post_signup bc salt fn ln email' pw rl w =
    (Response 500 (message_body ''Server error during signup''),
     w\<lparr>next_oid := Suc (next_oid w),
       console := console w @
         [ConsoleError ''Error during signup:''
            (ValidationError (required_failures
               [(''firstName'', fn), (''lastName'', ln), (''email'', email'),
                (''password'', bcrypt_hash bc pw 10 salt), (''role'', rl)]))]\<rparr>)"
  using assms User_findOne_email_None [of email' w]
  by (auto simp: post_signup_def post_signup_interleaved_def new_User_def fresh_oid_def User_save_def Let_def
      User_validate_def required_failures_def split: option.splits)

lemma post_signup_interleaved_found:
  "email' \<in> email ` set (users w) \<Longrightarrow>
   post_signup_interleaved bc salt fn ln email' pw rl w w' =
     (Response 400 (message_body ''Email already exists''), w')"
  using User_findOne_email_None [of email' w]
  by (auto simp: post_signup_interleaved_def split: option.splits)

lemma post_signup_interleaved_created:
  assumes "email' \<notin> email ` set (users w)" "email' \<notin> email ` set (users w')"
    "fn \<noteq> []" "ln \<noteq> []" "email' \<noteq> []" "rl \<noteq> []"
  shows "post_signup_interleaved bc salt fn ln email' pw rl w w' =
    (Response 201 (message_body ''User created successfully''),
     w'\<lparr>users := users w' @ [\<lparr>user_id = ObjectId (next_oid w'), firstName = fn, lastName = ln,
          email = email', password = bcrypt_hash bc pw 10 salt, role = rl, user_v = 0\<rparr>],
       next_oid := Suc (next_oid w')\<rparr>)"
  using assms User_findOne_email_None [of email' w]
  by (auto simp: post_signup_interleaved_def new_User_def fresh_oid_def User_save_def
      User_validate_ok bcrypt_hash_nonempty list_ex_iff split: option.splits)

lemma post_signup_interleaved_refused:
  assumes "email' \<notin> email ` set (users w)"
    "fn = [] \<or> ln = [] \<or> email' = [] \<or> rl = [] \<or> email' \<in> email ` set (users w')"
  shows "fst (post_signup_interleaved bc salt fn ln email' pw rl w w') =
       Response 500 (message_body ''Server error during signup'') \<and>
     users (snd (post_signup_interleaved bc salt fn ln email' pw rl w w')) = users w' \<and>
     messages (snd (post_signup_interleaved bc salt fn ln email' pw rl w w')) = messages w'"
proof -
  have none: "User_findOne_email email' w = None"
    using assms(1) by (simp add: User_findOne_email_None)
  let ?u = "\<lparr>user_id = ObjectId (next_oid w'), firstName = fn, lastName = ln, email = email',
             password = bcrypt_hash bc pw 10 salt, role = rl, user_v = 0\<rparr>"
  have bad: "User_validate ?u \<noteq> [] \<or> list_ex (\<lambda>v. email v = email') (users w')"
    using assms(2) by (auto simp: User_validate_ok list_ex_iff)
  have "\<exists>err. User_save ?u (w'\<lparr>next_oid := Suc (next_oid w')\<rparr>) = Inl err"
    using bad by (cases "User_validate ?u = []") (simp_all add: User_save_def)
  then obtain err where "User_save ?u (w'\<lparr>next_oid := Suc (next_oid w')\<rparr>) = Inl err"
    by blast
  then show ?thesis
    by (simp add: post_signup_interleaved_def none new_User_def fresh_oid_def)
qed


lemma post_signup_interleaved_appends:
  "(\<exists>us. users (snd (post_signup_interleaved bc salt fn ln em pw rl w w')) = users w' @ us) \<and>
   messages (snd (post_signup_interleaved bc salt fn ln em pw rl w w')) = messages w'"
  by (auto simp: post_signup_interleaved_def new_User_def fresh_oid_def User_save_def Let_def
      split: option.splits)

text \<open>
  C4 (as amended). The signup route looks the email up in the store as it is when the request
  arrives (\<open>w\<close>) and saves in the store as it is after its awaits (\<open>w'\<close>; the same store
  when no other request came in between). If some account stored in \<open>w\<close> has exactly the
  given email, the answer is 400 \<open>Email already exists\<close> and the route changes nothing.
  Otherwise, if firstName, lastName, email and role are all non-empty and no account with
  the email has been stored in the meantime, one account is appended whose password field is
  the bcrypt string \<open>$2b$10$<salt><digest>\<close> of the given password, and the answer is 201
  with nothing but a message. Otherwise (a required field is empty, or another signup stored
  the email in the meantime and the unique index refuses the insert) the answer is 500
  \<open>Server error during signup\<close> and no account is created.
\<close>

theorem post_signup_outcomes:
  "(email' \<in> email ` set (users w) \<longrightarrow>
      post_signup_interleaved bc salt fn ln email' pw rl w w' =
        (Response 400 (JObj [(''message'', JStr ''Email already exists'')]), w')) \<and>
   (email' \<notin> email ` set (users w) \<and> email' \<notin> email ` set (users w') \<and>
    fn \<noteq> [] \<and> ln \<noteq> [] \<and> email' \<noteq> [] \<and> rl \<noteq> [] \<longrightarrow>
      post_signup_interleaved bc salt fn ln email' pw rl w w' =
        (Response 201 (JObj [(''message'', JStr ''User created successfully'')]),
         w'\<lparr>users := users w' @
              [\<lparr>user_id = ObjectId (next_oid w'), firstName = fn, lastName = ln, email = email',
                password = ''$2b$10$'' @ salt @ digest bc pw 10 salt, role = rl, user_v = 0\<rparr>],
            next_oid := Suc (next_oid w')\<rparr>)) \<and>
   (email' \<notin> email ` set (users w) \<and>
    (fn = [] \<or> ln = [] \<or> email' = [] \<or> rl = [] \<or> email' \<in> email ` set (users w')) \<longrightarrow>
      fst (post_signup_interleaved bc salt fn ln email' pw rl w w') =
        Response 500 (JObj [(''message'', JStr ''Server error during signup'')]) \<and>
      users (snd (post_signup_interleaved bc salt fn ln email' pw rl w w')) = users w' \<and>
      messages (snd (post_signup_interleaved bc salt fn ln email' pw rl w w')) = messages w') \<and>
   post_signup bc salt fn ln email' pw rl w =
     post_signup_interleaved bc salt fn ln email' pw rl w w"
proof (intro conjI impI)
  assume "email' \<in> email ` set (users w)"
  then show "post_signup_interleaved bc salt fn ln email' pw rl w w' =
        (Response 400 (JObj [(''message'', JStr ''Email already exists'')]), w')"
    by (simp add: post_signup_interleaved_found message_body_def)
next
  assume a: "email' \<notin> email ` set (users w) \<and> email' \<notin> email ` set (users w') \<and>
    fn \<noteq> [] \<and> ln \<noteq> [] \<and> email' \<noteq> [] \<and> rl \<noteq> []"
  have h: "bcrypt_hash bc pw 10 salt = ''$2b$10$'' @ salt @ digest bc pw 10 salt"
    by (simp add: bcrypt_hash_def two_digits_10)
  from a show "post_signup_interleaved bc salt fn ln email' pw rl w w' =
        (Response 201 (JObj [(''message'', JStr ''User created successfully'')]),
         w'\<lparr>users := users w' @
              [\<lparr>user_id = ObjectId (next_oid w'), firstName = fn, lastName = ln, email = email',
                password = ''$2b$10$'' @ salt @ digest bc pw 10 salt, role = rl, user_v = 0\<rparr>],
            next_oid := Suc (next_oid w')\<rparr>)"
    by (simp add: post_signup_interleaved_created message_body_def h)
next
  assume a: "email' \<notin> email ` set (users w) \<and>
    (fn = [] \<or> ln = [] \<or> email' = [] \<or> rl = [] \<or> email' \<in> email ` set (users w'))"
  then have r: "fst (post_signup_interleaved bc salt fn ln email' pw rl w w') =
       Response 500 (message_body ''Server error during signup'') \<and>
     users (snd (post_signup_interleaved bc salt fn ln email' pw rl w w')) = users w' \<and>
     messages (snd (post_signup_interleaved bc salt fn ln email' pw rl w w')) = messages w'"
    by (intro post_signup_interleaved_refused) simp_all
  show "fst (post_signup_interleaved bc salt fn ln email' pw rl w w') =
        Response 500 (JObj [(''message'', JStr ''Server error during signup'')])"
    using r by (simp add: message_body_def)
  show "users (snd (post_signup_interleaved bc salt fn ln email' pw rl w w')) = users w'"
    using r by simp
  show "messages (snd (post_signup_interleaved bc salt fn ln email' pw rl w w')) = messages w'"
    using r by simp
next
  show "post_signup bc salt fn ln email' pw rl w =
     post_signup_interleaved bc salt fn ln email' pw rl w w"
    by (simp add: post_signup_def)
qed

text \<open>
  C4, witness: a signup on the empty store (201), a second one with the stored email (400),
  one with an empty last name (500), and one that looked the email up on the empty store
  while Jane's signup was still to save, and saves after it (500).
\<close>

theorem post_signup_outcomes_witness:
  "post_signup_interleaved stub_bcrypt salt0 ''Jane'' ''Doe'' ''jane@x.com'' ''pw1'' ''Teacher''
      empty_world empty_world =
     (Response 201 (JObj [(''message'', JStr ''User created successfully'')]), jane_world) \<and>
   post_signup_interleaved stub_bcrypt salt0 ''Janet'' ''Roe'' ''jane@x.com'' ''pw2'' ''Parent''
      jane_world jane_world =
     (Response 400 (JObj [(''message'', JStr ''Email already exists'')]), jane_world) \<and>
   fst (post_signup_interleaved stub_bcrypt salt0 ''Janet'' [] ''janet@x.com'' ''pw2'' ''Parent''
      jane_world jane_world) =
     Response 500 (JObj [(''message'', JStr ''Server error during signup'')]) \<and>
   users (snd (post_signup_interleaved stub_bcrypt salt0 ''Janet'' [] ''janet@x.com'' ''pw2''
      ''Parent'' jane_world jane_world)) = [jane] \<and>
   fst (post_signup_interleaved stub_bcrypt salt0 ''Janet'' ''Roe'' ''jane@x.com'' ''pw2'' ''Parent''
      empty_world jane_world) =
     Response 500 (JObj [(''message'', JStr ''Server error during signup'')]) \<and>
   users (snd (post_signup_interleaved stub_bcrypt salt0 ''Janet'' ''Roe'' ''jane@x.com'' ''pw2''
      ''Parent'' empty_world jane_world)) = [jane]"
  using post_signup_outcomes [where email' = "''jane@x.com''" and w = empty_world
      and w' = empty_world and bc = stub_bcrypt and salt = salt0 and fn = "''Jane''"
      and ln = "''Doe''" and pw = "''pw1''" and rl = "''Teacher''"]
    post_signup_outcomes [where email' = "''jane@x.com''" and w = jane_world
      and w' = jane_world and bc = stub_bcrypt and salt = salt0 and fn = "''Janet''"
      and ln = "''Roe''" and pw = "''pw2''" and rl = "''Parent''"]
    post_signup_outcomes [where email' = "''janet@x.com''" and w = jane_world
      and w' = jane_world and bc = stub_bcrypt and salt = salt0 and fn = "''Janet''"
      and ln = "[]" and pw = "''pw2''" and rl = "''Parent''"]
    post_signup_outcomes [where email' = "''jane@x.com''" and w = empty_world
      and w' = jane_world and bc = stub_bcrypt and salt = salt0 and fn = "''Janet''"
      and ln = "''Roe''" and pw = "''pw2''" and rl = "''Parent''"]
  by (simp add: empty_world_def jane_world_def jane_def stub_bcrypt_def salt0_def)

text \<open>
  C4, counterexample to the claim as stated. First: no account with the email exists, yet no
  account is persisted, because \<open>firstName\<close> is empty and the schema requires it. Second:
  two signups of one fresh email arrive together, every field non-empty. Both look the email
  up on the empty store; Jane's saves first (201, leaving the store with Jane), and the other
  one's insert is refused by the unique index: 500, not 400, and no second account.
\<close>

theorem post_signup_no_account_counterexample:
  "post_signup stub_bcrypt salt0 [] ''Doe'' ''jane@x.com'' ''pw1'' ''Teacher'' empty_world =
     (Response 500 (JObj [(''message'', JStr ''Server error during signup'')]),
      empty_world\<lparr>next_oid := 1,
        console := [ConsoleError ''Error during signup:'' (ValidationError [''firstName''])]\<rparr>) \<and>
   post_signup stub_bcrypt salt0 ''Jane'' ''Doe'' ''jane@x.com'' ''pw1'' ''Teacher'' empty_world =
     (Response 201 (JObj [(''message'', JStr ''User created successfully'')]), jane_world) \<and>
   post_signup_interleaved stub_bcrypt salt0 ''Janet'' ''Roe'' ''jane@x.com'' ''pw2'' ''Parent''
      empty_world jane_world =
     (Response 500 (JObj [(''message'', JStr ''Server error during signup'')]),
      jane_world\<lparr>next_oid := 2,
        console := [ConsoleError ''Error during signup:'' (DuplicateKeyError ''email'')]\<rparr>)"
  by (simp add: post_signup_def post_signup_interleaved_def User_findOne_email_def
      empty_world_def jane_world_def jane_def new_User_def fresh_oid_def User_save_def
      User_validate_def required_failures_def bcrypt_hash_def message_body_def stub_bcrypt_def
      salt0_def two_digits_10 Let_def numeral_2_eq_2)

subsection \<open>Login\<close>


lemma post_login_found:
  "User_findOne_email (toLowerCase e) w = Some v \<Longrightarrow>
   post_login bc e p w =
     (if compare bc p (password v)
      then (Response 200 (JObj [(''message'', JStr ''Login successful''), (''user'', user_toJSON v)]), w)
      else (Response 400 (message_body ''Invalid email or password''), w))"
  by (simp add: post_login_def)



text \<open>
  The example of the specification: Jane signed up as \<open>jane@x.com\<close>. Login succeeds
  with that email however it is capitalised, and fails on a wrong password.
\<close>

lemma post_login_examples:
  "fst (post_login stub_bcrypt ''jane@x.com'' ''pw1'' jane_world) =
     Response 200 (JObj [(''message'', JStr ''Login successful''), (''user'', user_toJSON jane)])"
  "fst (post_login stub_bcrypt ''Jane@X.com'' ''pw1'' jane_world) =
     Response 200 (JObj [(''message'', JStr ''Login successful''), (''user'', user_toJSON jane)])"
  "fst (post_login stub_bcrypt ''jane@x.com'' ''wrong'' jane_world) =
     Response 400 (JObj [(''message'', JStr ''Invalid email or password'')])"
proof -
  have lower: "toLowerCase ''jane@x.com'' = ''jane@x.com''"
    "toLowerCase ''Jane@X.com'' = ''jane@x.com''"
    by code_simp+
  have found: "User_findOne_email ''jane@x.com'' jane_world = Some jane"
    by (simp add: User_findOne_email_def jane_world_def jane_def empty_world_def)
  show "fst (post_login stub_bcrypt ''jane@x.com'' ''pw1'' jane_world) =
     Response 200 (JObj [(''message'', JStr ''Login successful''), (''user'', user_toJSON jane)])"
    using found by (simp add: post_login_found lower) (simp add: stub_bcrypt_def jane_def)
  show "fst (post_login stub_bcrypt ''Jane@X.com'' ''pw1'' jane_world) =
     Response 200 (JObj [(''message'', JStr ''Login successful''), (''user'', user_toJSON jane)])"
    using found by (simp add: post_login_found lower) (simp add: stub_bcrypt_def jane_def)
  show "fst (post_login stub_bcrypt ''jane@x.com'' ''wrong'' jane_world) =
     Response 400 (JObj [(''message'', JStr ''Invalid email or password'')])"
    using found
    by (simp add: post_login_found lower) (simp add: stub_bcrypt_def jane_def message_body_def)
qed

text \<open>
  C1. Login should succeed when the email matches the stored one up to case and the password
  matches. On the code it does not: after a successful signup with the email
  \<open>Jane@x.com\<close>, login with that very email and password, or with \<open>jane@x.com\<close>, is
  answered 400 \<open>Invalid email or password\<close>, for every bcrypt and salt. The login route
  lowercases the submitted email; signup stores it as typed.
\<close>

theorem post_login_mixed_case_signup:
  "fst (post_signup bc salt ''Jane'' ''Doe'' ''Jane@x.com'' ''pw1'' ''Teacher'' empty_world) =
     Response 201 (JObj [(''message'', JStr ''User created successfully'')]) \<and>
   fst (post_login bc ''Jane@x.com'' ''pw1''
          (snd (post_signup bc salt ''Jane'' ''Doe'' ''Jane@x.com'' ''pw1'' ''Teacher'' empty_world))) =
     Response 400 (JObj [(''message'', JStr ''Invalid email or password'')]) \<and>
   fst (post_login bc ''jane@x.com'' ''pw1''
          (snd (post_signup bc salt ''Jane'' ''Doe'' ''Jane@x.com'' ''pw1'' ''Teacher'' empty_world))) =
     Response 400 (JObj [(''message'', JStr ''Invalid email or password'')])"
proof -
  have lower: "toLowerCase ''Jane@x.com'' = ''jane@x.com''" "toLowerCase ''jane@x.com'' = ''jane@x.com''"
    by code_simp+
  have created: "post_signup bc salt ''Jane'' ''Doe'' ''Jane@x.com'' ''pw1'' ''Teacher'' empty_world =
    (Response 201 (message_body ''User created successfully''),
     empty_world\<lparr>users := users empty_world @ [\<lparr>user_id = ObjectId (next_oid empty_world),
          firstName = ''Jane'', lastName = ''Doe'',
          email = ''Jane@x.com'', password = bcrypt_hash bc ''pw1'' 10 salt, role = ''Teacher'', user_v = 0\<rparr>],
       next_oid := Suc (next_oid empty_world)\<rparr>)"
    by (rule post_signup_created) (simp_all add: empty_world_def)
  show ?thesis
    unfolding created
    by (simp add: post_login_def lower User_findOne_email_def empty_world_def message_body_def)
qed




subsection \<open>The sendMessage handler\<close>

lemma castObjectId_examples:
  "castObjectId id0 = Some (ObjectId 0)" "castObjectId id1 = Some (ObjectId 1)"
  "castObjectId idff = Some (ObjectId 255)" "castObjectId ''jane'' = None"
  by code_simp+

lemma new_Message_eq:
  "new_Message now s r c w =
     (\<lparr>doc_id = ObjectId (next_oid w), doc_sender = castObjectId s,
       doc_receiver = castObjectId r, doc_content = c, doc_timestamp = now\<rparr>,
      w\<lparr>next_oid := Suc (next_oid w)\<rparr>)"
  by (simp add: new_Message_def fresh_oid_def)

lemma Message_save_throws_iff:
  "(\<exists>err. Message_save (fst (new_Message now s r c w)) (snd (new_Message now s r c w)) = Inl err) =
   (castObjectId s = None \<or> castObjectId r = None \<or> c = [])"
  by (auto simp: new_Message_eq Message_save_def Message_validate_def required_failures_def
      Let_def split: option.splits)

lemma Message_save_ok:
  assumes "castObjectId s = Some a" "castObjectId r = Some b" "c \<noteq> []"
  shows "Message_save (fst (new_Message now s r c w)) (snd (new_Message now s r c w)) =
     Inr (\<lparr>message_id = ObjectId (next_oid w), sender = a, receiver = b, content = c,
           timestamp = now, message_v = 0\<rparr>,
          w\<lparr>next_oid := Suc (next_oid w),
            messages := messages w @
              [\<lparr>message_id = ObjectId (next_oid w), sender = a, receiver = b, content = c,
                timestamp = now, message_v = 0\<rparr>]\<rparr>)"
  using assms
  by (simp add: new_Message_eq Message_save_def Message_validate_def required_failures_def
      Let_def)

lemma on_sendMessage_Inl:
  assumes "Message_save (fst (new_Message now s r c w)) (snd (new_Message now s r c w)) = Inl err"
  shows "on_sendMessage now s r c w =
     w\<lparr>next_oid := Suc (next_oid w),
       console := console w @ [ConsoleError ''Error handling sendMessage event:'' err]\<rparr>"
  using assms by (simp add: on_sendMessage_def new_Message_eq)

lemma on_sendMessage_Inr:
  assumes "Message_save (fst (new_Message now s r c w)) (snd (new_Message now s r c w)) = Inr (m, w2)"
  shows "on_sendMessage now s r c w =
     io_emit ''receiveMessage'' (receiveMessage s r c (timestamp m)) w2"
  using assms by (simp add: on_sendMessage_def new_Message_eq)

lemma on_sendMessage_ok:
  assumes "castObjectId senderId = Some s" "castObjectId receiverId = Some r" "content' \<noteq> []"
  shows "on_sendMessage now senderId receiverId content' w =
       io_emit ''receiveMessage'' (receiveMessage senderId receiverId content' now)
         (w\<lparr>next_oid := Suc (next_oid w),
            messages := messages w @
              [\<lparr>message_id = ObjectId (next_oid w), sender = s, receiver = r,
                content = content', timestamp = now, message_v = 0\<rparr>]\<rparr>)"
  using on_sendMessage_Inr [OF Message_save_ok [OF assms]] by simp

lemma online_world_eq:
  "online_world = jane_world\<lparr>sockets := [''socket-a'', ''socket-b''],
     console := [ConsoleLog [''A user connected:'', ''socket-a''],
                 ConsoleLog [''A user connected:'', ''socket-b'']]\<rparr>"
  by (simp add: online_world_def on_connection_def jane_world_def empty_world_def)

text \<open>
  C3. If saving the message throws, the handler only writes the error to the console: nothing
  is emitted to any socket (the sender included), no message is stored, and apart from the
  consumed ObjectId the world is unchanged. Conversely, if anything was emitted then the save
  had returned and the emit ran on the world after it. Saving throws exactly when senderId or
  receiverId does not cast to ObjectId or the content is empty.
\<close>

theorem on_sendMessage_save_throws:
  "(Message_save (fst (new_Message now s r c w)) (snd (new_Message now s r c w)) = Inl err \<longrightarrow>
      on_sendMessage now s r c w =
        w\<lparr>next_oid := Suc (next_oid w),
          console := console w @ [ConsoleError ''Error handling sendMessage event:'' err]\<rparr> \<and>
      emitted (on_sendMessage now s r c w) = emitted w \<and>
      messages (on_sendMessage now s r c w) = messages w) \<and>
   (emitted (on_sendMessage now s r c w) \<noteq> emitted w \<longrightarrow>
      (\<exists>m w2. Message_save (fst (new_Message now s r c w)) (snd (new_Message now s r c w)) =
                 Inr (m, w2) \<and>
               on_sendMessage now s r c w =
                 io_emit ''receiveMessage'' (receiveMessage s r c (timestamp m)) w2)) \<and>
   ((\<exists>e. Message_save (fst (new_Message now s r c w)) (snd (new_Message now s r c w)) = Inl e) =
      (castObjectId s = None \<or> castObjectId r = None \<or> c = []))"
proof (intro conjI impI)
  assume thrown: "Message_save (fst (new_Message now s r c w)) (snd (new_Message now s r c w)) = Inl err"
  note eq = on_sendMessage_Inl [OF thrown]
  show "on_sendMessage now s r c w =
        w\<lparr>next_oid := Suc (next_oid w),
          console := console w @ [ConsoleError ''Error handling sendMessage event:'' err]\<rparr>"
    by (rule eq)
  show "emitted (on_sendMessage now s r c w) = emitted w"
    by (simp add: eq)
  show "messages (on_sendMessage now s r c w) = messages w"
    by (simp add: eq)
next
  assume changed: "emitted (on_sendMessage now s r c w) \<noteq> emitted w"
  show "\<exists>m w2. Message_save (fst (new_Message now s r c w)) (snd (new_Message now s r c w)) =
                 Inr (m, w2) \<and>
               on_sendMessage now s r c w =
                 io_emit ''receiveMessage'' (receiveMessage s r c (timestamp m)) w2"
  proof (cases "Message_save (fst (new_Message now s r c w)) (snd (new_Message now s r c w))")
    case (Inl e)
    from on_sendMessage_Inl [OF Inl] changed show ?thesis by simp
  next
    case (Inr saved)
    obtain m w2 where "saved = (m, w2)" by (cases saved)
    with Inr on_sendMessage_Inr show ?thesis by blast
  qed
next
  show "(\<exists>e. Message_save (fst (new_Message now s r c w)) (snd (new_Message now s r c w)) = Inl e) =
      (castObjectId s = None \<or> castObjectId r = None \<or> c = [])"
    by (rule Message_save_throws_iff)
qed

text \<open>C3, witness: an empty content (save throws) and a proper message (save returns).\<close>

theorem on_sendMessage_save_throws_witness:
  "Message_save (fst (new_Message 1700000000000 id0 id1 [] online_world))
      (snd (new_Message 1700000000000 id0 id1 [] online_world)) =
     Inl (ValidationError [''content'']) \<and>
   emitted (on_sendMessage 1700000000000 id0 id1 [] online_world) = emitted online_world \<and>
   messages (on_sendMessage 1700000000000 id0 id1 [] online_world) = messages online_world \<and>
   emitted (on_sendMessage 1700000000000 id0 id1 ''hi'' online_world) \<noteq> emitted online_world \<and>
   (\<exists>m w2. Message_save (fst (new_Message 1700000000000 id0 id1 ''hi'' online_world))
       (snd (new_Message 1700000000000 id0 id1 ''hi'' online_world)) = Inr (m, w2))"
proof -
  have thrown: "Message_save (fst (new_Message 1700000000000 id0 id1 [] online_world))
      (snd (new_Message 1700000000000 id0 id1 [] online_world)) =
     Inl (ValidationError [''content''])"
    by (simp add: new_Message_eq castObjectId_examples Message_save_def Message_validate_def
        required_failures_def)
  have sent: "emitted (on_sendMessage 1700000000000 id0 id1 ''hi'' online_world) \<noteq>
      emitted online_world"
    by (simp add: on_sendMessage_def new_Message_eq castObjectId_examples Message_save_def
        Message_validate_def required_failures_def io_emit_def online_world_eq jane_world_def
        empty_world_def Let_def)
  show ?thesis
    using on_sendMessage_save_throws [where now = 1700000000000 and s = id0 and r = id1
        and c = "[]" and w = online_world and err = "ValidationError [''content'']"]
      on_sendMessage_save_throws [where now = 1700000000000 and s = id0 and r = id1
        and c = "''hi''" and w = online_world]
      thrown sent
    by blast
qed




subsection \<open>The messages route\<close>

lemma between_sym: "between a b m = between b a m"
  by (auto simp: between_def)

lemma get_chat_messages_ok:
  assumes "castObjectId currentUserId = Some c" "castObjectId otherUserId = Some o'"
  shows "get_chat_messages otherUserId currentUserId w =
     (Response 200 (JArr (map (message_populated (users w)) (filter (between c o') (messages w)))), w)"
  using assms by (simp add: get_chat_messages_def Message_find_between_def)

lemma populate_ref_names:
  "populate_ref [''firstName'', ''lastName''] us oid =
     (case find (\<lambda>u. user_id u = oid) us of
        None \<Rightarrow> JNull
      | Some u \<Rightarrow> JObj [(''_id'', JId (user_id u)), (''firstName'', JStr (firstName u)),
                        (''lastName'', JStr (lastName u))])"
  by (simp add: populate_ref_def user_toJSON_def split: option.splits)

lemma chat_world_eq:
  "chat_world = jane_world\<lparr>
     messages :=
       [\<lparr>message_id = ObjectId 1, sender = ObjectId 0, receiver = ObjectId 255,
         content = ''hi'', timestamp = 1700000000001, message_v = 0\<rparr>,
        \<lparr>message_id = ObjectId 2, sender = ObjectId 255, receiver = ObjectId 0,
         content = ''yo'', timestamp = 1700000000002, message_v = 0\<rparr>,
        \<lparr>message_id = ObjectId 3, sender = ObjectId 0, receiver = ObjectId 1,
         content = ''other'', timestamp = 1700000000003, message_v = 0\<rparr>],
     next_oid := 4,
     sockets := [''socket-a'', ''socket-b''],
     emitted :=
       [(''socket-a'', ''receiveMessage'', receiveMessage id0 idff ''hi'' 1700000000001),
        (''socket-b'', ''receiveMessage'', receiveMessage id0 idff ''hi'' 1700000000001),
        (''socket-a'', ''receiveMessage'', receiveMessage idff id0 ''yo'' 1700000000002),
        (''socket-b'', ''receiveMessage'', receiveMessage idff id0 ''yo'' 1700000000002),
        (''socket-a'', ''receiveMessage'', receiveMessage id0 id1 ''other'' 1700000000003),
        (''socket-b'', ''receiveMessage'', receiveMessage id0 id1 ''other'' 1700000000003)],
     console := [ConsoleLog [''A user connected:'', ''socket-a''],
                 ConsoleLog [''A user connected:'', ''socket-b'']]\<rparr>"
  by (simp add: chat_world_def on_sendMessage_ok [OF castObjectId_examples(1) castObjectId_examples(3)]
      on_sendMessage_ok [OF castObjectId_examples(3) castObjectId_examples(1)]
      on_sendMessage_ok [OF castObjectId_examples(1) castObjectId_examples(2)]
      io_emit_def online_world_eq jane_world_def empty_world_def)

text \<open>
  C6 (as amended). For identifiers \<open>A\<close> and \<open>B\<close> that cast to ObjectId, the messages
  route answers 200 with exactly the stored messages sent from \<open>A\<close> to \<open>B\<close> or from
  \<open>B\<close> to \<open>A\<close>, in store order, and the answer is the same with \<open>A\<close> and \<open>B\<close>
  exchanged. In each message \<open>sender\<close> and \<open>receiver\<close> are replaced by
  \<open>{_id, firstName, lastName}\<close> of the account with that identifier, or by \<open>null\<close> when
  no stored account has it.
\<close>

theorem get_chat_messages_both_directions:
  assumes "castObjectId A = Some a" "castObjectId B = Some b"
  shows "get_chat_messages B A w =
       (Response 200
          (JArr (map (message_populated (users w))
             (filter (\<lambda>m. sender m = a \<and> receiver m = b \<or> sender m = b \<and> receiver m = a)
                (messages w)))), w) \<and>
     get_chat_messages A B w = get_chat_messages B A w \<and>
     message_populated (users w) m =
       JObj [(''_id'', JId (message_id m)),
             (''sender'',
              case find (\<lambda>u. user_id u = sender m) (users w) of
                None \<Rightarrow> JNull
              | Some u \<Rightarrow> JObj [(''_id'', JId (user_id u)), (''firstName'', JStr (firstName u)),
                                (''lastName'', JStr (lastName u))]),
             (''receiver'',
              case find (\<lambda>u. user_id u = receiver m) (users w) of
                None \<Rightarrow> JNull
              | Some u \<Rightarrow> JObj [(''_id'', JId (user_id u)), (''firstName'', JStr (firstName u)),
                                (''lastName'', JStr (lastName u))]),
             (''content'', JStr (content m)), (''timestamp'', JDate (timestamp m)),
             (''__v'', JNum (message_v m))]"
proof -
  have sym: "between b a = between a b"
    by (rule ext) (rule between_sym)
  have 1: "get_chat_messages B A w =
       (Response 200
          (JArr (map (message_populated (users w))
             (filter (\<lambda>m. sender m = a \<and> receiver m = b \<or> sender m = b \<and> receiver m = a)
                (messages w)))), w)"
    using get_chat_messages_ok [OF assms, of w] by (simp add: between_def [abs_def])
  have 2: "get_chat_messages A B w = get_chat_messages B A w"
    using get_chat_messages_ok [OF assms, of w] get_chat_messages_ok [OF assms(2) assms(1), of w]
    by (simp add: sym)
  show ?thesis
    using 1 2 by (simp add: message_populated_def populate_ref_names)
qed

text \<open>
  C6, counterexample to the claim as stated: Jane exchanges messages with an identifier that
  no account has. The references to it are \<open>null\<close>, not an object with first and last name,
  and Jane's own carry her \<open>_id\<close> too.
\<close>

theorem get_chat_messages_dangling_counterexample:
  "fst (get_chat_messages idff id0 chat_world) =
     Response 200
       (JArr [JObj [(''_id'', JId (ObjectId 1)),
                    (''sender'', JObj [(''_id'', JId (ObjectId 0)), (''firstName'', JStr ''Jane''),
                                      (''lastName'', JStr ''Doe'')]),
                    (''receiver'', JNull),
                    (''content'', JStr ''hi''), (''timestamp'', JDate 1700000000001),
                    (''__v'', JNum 0)],
              JObj [(''_id'', JId (ObjectId 2)),
                    (''sender'', JNull),
                    (''receiver'', JObj [(''_id'', JId (ObjectId 0)), (''firstName'', JStr ''Jane''),
                                        (''lastName'', JStr ''Doe'')]),
                    (''content'', JStr ''yo''), (''timestamp'', JDate 1700000000002),
                    (''__v'', JNum 0)]])"
  by (simp add: get_chat_messages_ok [OF castObjectId_examples(1) castObjectId_examples(3)]
      chat_world_eq between_def message_populated_def populate_ref_names jane_world_def
      empty_world_def jane_def)

text \<open>C6, witness: the two messages between Jane and the other identifier, not the third.\<close>

theorem get_chat_messages_both_directions_witness:
  "castObjectId id0 = Some (ObjectId 0) \<and> castObjectId idff = Some (ObjectId 255) \<and>
   get_chat_messages idff id0 chat_world = get_chat_messages id0 idff chat_world \<and>
   fst (get_chat_messages idff id0 chat_world) =
     Response 200
       (JArr (map (message_populated [jane])
          [\<lparr>message_id = ObjectId 1, sender = ObjectId 0, receiver = ObjectId 255,
            content = ''hi'', timestamp = 1700000000001, message_v = 0\<rparr>,
           \<lparr>message_id = ObjectId 2, sender = ObjectId 255, receiver = ObjectId 0,
            content = ''yo'', timestamp = 1700000000002, message_v = 0\<rparr>]))"
  using get_chat_messages_both_directions [where A = id0 and B = idff and a = "ObjectId 0"
      and b = "ObjectId 255" and w = chat_world]
  by (simp add: castObjectId_examples chat_world_eq jane_world_def empty_world_def)

subsection \<open>The listings\<close>

lemma select_user_fields:
  "select_fields [''firstName'', ''lastName'', ''email'', ''role''] (user_toJSON u) =
     JObj [(''_id'', JId (user_id u)), (''firstName'', JStr (firstName u)),
           (''lastName'', JStr (lastName u)), (''email'', JStr (email u)),
           (''role'', JStr (role u))]"
  by (simp add: user_toJSON_def)

text \<open>
  C7 (as amended). The users route answers 200 with one record per stored account, in store
  order, whose fields are exactly \<open>_id\<close>, \<open>firstName\<close>, \<open>lastName\<close>, \<open>email\<close> and
  \<open>role\<close>: the four selected fields and the identifier that the selection keeps. No
  returned record has a \<open>password\<close> field. The world is unchanged.
\<close>

theorem get_chat_users_projection:
  "get_chat_users w =
     (Response 200
        (JArr (map (\<lambda>u. JObj [(''_id'', JId (user_id u)), (''firstName'', JStr (firstName u)),
                              (''lastName'', JStr (lastName u)), (''email'', JStr (email u)),
                              (''role'', JStr (role u))])
                 (users w))), w) \<and>
   keys (select_fields [''firstName'', ''lastName'', ''email'', ''role''] (user_toJSON u)) =
     [''_id'', ''firstName'', ''lastName'', ''email'', ''role''] \<and>
   field ''password'' (select_fields [''firstName'', ''lastName'', ''email'', ''role''] (user_toJSON u)) =
     None"
  by (simp add: get_chat_users_def select_user_fields keys_def field_def)

text \<open>
  C7, counterexample to the claim as stated: the record returned for Jane has five fields, the
  first of them \<open>_id\<close>, not exactly the four selected ones.
\<close>

theorem get_chat_users_id_counterexample:
  "fst (get_chat_users jane_world) =
     Response 200
       (JArr [JObj [(''_id'', JId (ObjectId 0)), (''firstName'', JStr ''Jane''),
                    (''lastName'', JStr ''Doe''), (''email'', JStr ''jane@x.com''),
                    (''role'', JStr ''Teacher'')]]) \<and>
   keys (JObj [(''_id'', JId (ObjectId 0)), (''firstName'', JStr ''Jane''),
               (''lastName'', JStr ''Doe''), (''email'', JStr ''jane@x.com''),
               (''role'', JStr ''Teacher'')]) =
     [''_id'', ''firstName'', ''lastName'', ''email'', ''role''] \<and>
   ''_id'' \<notin> set [''firstName'', ''lastName'', ''email'', ''role'']"
  by (simp add: get_chat_users_def select_user_fields keys_def jane_world_def jane_def
      empty_world_def)

text \<open>
  C9. The teachers and parents routes answer 200 with the whole document of every stored
  account whose role is exactly \<open>Teacher\<close>, respectively \<open>Parent\<close>, in store order. The
  whole document has the \<open>password\<close> field with the stored hash, which the selection of the
  users route removes.
\<close>

theorem role_listings_return_full_records:
  "get_chat_teachers w =
     (Response 200 (JArr (map user_toJSON (filter (\<lambda>u. role u = ''Teacher'') (users w)))), w) \<and>
   get_chat_parents w =
     (Response 200 (JArr (map user_toJSON (filter (\<lambda>u. role u = ''Parent'') (users w)))), w) \<and>
   user_toJSON u =
     JObj [(''_id'', JId (user_id u)), (''firstName'', JStr (firstName u)),
           (''lastName'', JStr (lastName u)), (''email'', JStr (email u)),
           (''password'', JStr (password u)), (''role'', JStr (role u)),
           (''__v'', JNum (user_v u))] \<and>
   field ''password'' (user_toJSON u) = Some (JStr (password u)) \<and>
   field ''password'' (select_fields [''firstName'', ''lastName'', ''email'', ''role''] (user_toJSON u)) =
     None"
  by (simp add: get_chat_teachers_def get_chat_parents_def User_find_role_def user_toJSON_def
      field_def)

subsection \<open>Stored records are never changed or removed\<close>

lemma initializeDefaultUsers_appends:
  "\<exists>us. users (initializeDefaultUsers bc salts w) = users w @ us"
  using initializeDefaultUsers_users [of bc salts w] by blast

lemma post_signup_appends:
  "(\<exists>us. users (snd (post_signup bc salt fn ln em pw rl w)) = users w @ us) \<and>
   messages (snd (post_signup bc salt fn ln em pw rl w)) = messages w"
  by (auto simp: post_signup_def post_signup_interleaved_def new_User_def fresh_oid_def User_save_def Let_def
      split: option.splits)

lemma on_sendMessage_appends:
  "users (on_sendMessage now s r c w) = users w \<and>
   (\<exists>ms. messages (on_sendMessage now s r c w) = messages w @ ms)"
  by (auto simp: on_sendMessage_def new_Message_eq Message_save_def io_emit_def Let_def
      split: option.splits)

lemma handle_appends:
  "(\<exists>us. users (snd (handle bc r w)) = users w @ us) \<and>
   (\<exists>ms. messages (snd (handle bc r w)) = messages w @ ms)"
proof (cases r)
  case (MongoOpen salts)
  then show ?thesis
    using initializeDefaultUsers_appends [of bc salts w]
    by (simp add: initializeDefaultUsers_messages)
next
  case (PostSignup salt fn ln em pw rl)
  then show ?thesis
    using post_signup_appends [of bc salt fn ln em pw rl w] by (simp add: split_beta)
next
  case (PostLogin em pw)
  then show ?thesis by (simp add: post_login_def split: option.splits)
next
  case GetChatUsers
  then show ?thesis by (simp add: get_chat_users_def)
next
  case GetChatTeachers
  then show ?thesis by (simp add: get_chat_teachers_def)
next
  case GetChatParents
  then show ?thesis by (simp add: get_chat_parents_def)
next
  case (GetChatMessages other current)
  then show ?thesis by (simp add: get_chat_messages_def split: sum.splits)
next
  case (Connection sid)
  then show ?thesis by (simp add: on_connection_def)
next
  case (SendMessage sid now s r' c)
  then show ?thesis
    using on_sendMessage_appends [of now s r' c w] by simp
next
  case (Disconnect sid)
  then show ?thesis by (simp add: on_disconnect_def)
qed

lemma run_appends:
  "(\<exists>us. users (run bc rs w) = users w @ us) \<and>
   (\<exists>ms. messages (run bc rs w) = messages w @ ms)"
proof (induction rs arbitrary: w)
  case Nil
  then show ?case by simp
next
  case (Cons r rs)
  obtain us ms where step: "users (snd (handle bc r w)) = users w @ us"
      "messages (snd (handle bc r w)) = messages w @ ms"
    using handle_appends [of bc r w] by blast
  obtain us' ms' where rest: "users (run bc rs (snd (handle bc r w))) = users (snd (handle bc r w)) @ us'"
      "messages (run bc rs (snd (handle bc r w))) = messages (snd (handle bc r w)) @ ms'"
    using Cons.IH [of "snd (handle bc r w)"] by blast
  show ?case
    using step rest by simp
qed

text \<open>
  C8. Whatever the server reacts to (the database opening and seeding, signup, login, the
  three listings, the messages route, a connection, sendMessage, a disconnect), the stored
  users and the stored messages afterwards are the ones before, unchanged and in place,
  followed by the new ones if any. The same holds after any sequence of such requests.
\<close>

theorem stored_records_only_grow:
  "(\<exists>us ms. users (snd (handle bc r w)) = users w @ us \<and>
            messages (snd (handle bc r w)) = messages w @ ms) \<and>
   (\<exists>us ms. users (run bc rs w) = users w @ us \<and> messages (run bc rs w) = messages w @ ms)"
  using handle_appends [of bc r w] run_appends [of bc rs w] by blast

end
